theory Spec2Isabelle
  imports Complex_Main "HOL-Library.Multiset"
begin

section \<open>Strings and numbers of the source language\<close>

text \<open>
  The program is TypeScript. A string is modelled as a \<^typ>\<open>string\<close> of ASCII
  characters, and a \<open>number\<close> that reaches the program through a parsed JSON
  document (a finite double) as a rational. \<open>toLowerCase\<close> maps the letters
  \<open>A\<close> to \<open>Z\<close> to \<open>a\<close> to \<open>z\<close> and leaves every other character alone;
  \<open>includesStr\<close> is the substring test of \<open>String.prototype.includes\<close>.
\<close>

type_synonym number = rat

definition toLowerChar :: "char \<Rightarrow> char" where
  "toLowerChar c =
     (let n = (of_char c :: nat) in if 65 \<le> n \<and> n \<le> 90 then char_of (n + 32) else c)"

definition toLowerCase :: "string \<Rightarrow> string" where
  "toLowerCase s = map toLowerChar s"

fun startsWith :: "string \<Rightarrow> string \<Rightarrow> bool" where
  "startsWith s [] = True"
| "startsWith [] (k # ks) = False"
| "startsWith (c # cs) (k # ks) = (c = k \<and> startsWith cs ks)"

fun includesStr :: "string \<Rightarrow> string \<Rightarrow> bool" where
  "includesStr [] k = (k = [])"
| "includesStr (c # cs) k = (startsWith (c # cs) k \<or> includesStr cs k)"

fun join :: "string \<Rightarrow> string list \<Rightarrow> string" where
  "join sep [] = []"
| "join sep [x] = x"
| "join sep (x # y # ys) = x @ sep @ join sep (y # ys)"

section \<open>The food relevance filter (\<open>src/utils/foodRecognition.ts\<close>)\<close>

definition foodKeywords :: "string list" where
  "foodKeywords =
    [''sushi'', ''croissant'', ''fish'', ''tuna'', ''salmon'', ''cod'', ''shrimp'', ''lobster'',
     ''crab'', ''oyster'', ''clam'',
     ''orange'', ''pineapple'', ''apple'', ''banana'', ''grape'', ''watermelon'', ''kiwi'',
     ''mango'', ''papaya'', ''peach'',
     ''pear'', ''plum'', ''cherry'', ''strawberry'', ''blueberry'', ''raspberry'',
     ''blackberry'', ''coconut'', ''avocado'',
     ''broccoli'', ''carrot'', ''spinach'', ''kale'', ''lettuce'', ''cucumber'', ''zucchini'',
     ''eggplant'', ''pepper'',
     ''tomato'', ''potato'', ''onion'', ''garlic'', ''ginger'', ''mushroom'', ''pumpkin'',
     ''squash'', ''corn'', ''peas'',
     ''chicken'', ''beef'', ''pork'', ''lamb'', ''duck'', ''turkey'', ''bacon'', ''sausage'',
     ''hotdog'', ''steak'', ''ham'',
     ''pizza'', ''burger'', ''sandwich'', ''taco'', ''burrito'', ''quesadilla'', ''pasta'',
     ''spaghetti'', ''lasagna'',
     ''ravioli'', ''noodles'', ''soup'', ''stew'', ''chowder'', ''salad'', ''cake'', ''pie'',
     ''cookie'', ''brownie'',
     ''donut'', ''muffin'', ''pancake'', ''waffle'', ''croissant'', ''bagel'', ''toast'',
     ''cheese'', ''yogurt'', ''milk'',
     ''ice cream'', ''chocolate'', ''candy'', ''honey'', ''jam'', ''jelly'', ''syrup'', ''tea'',
     ''coffee'', ''juice'',
     ''smoothie'', ''soda'', ''beer'', ''wine'', ''whiskey'', ''cocktail'',
     ''hotdog'', ''sushi'', ''fish'', ''tuna'', ''orange'', ''pineapple'',
     ''paneer'', ''dal'', ''samosa'', ''pakora'', ''biryani'', ''naan'', ''roti'', ''paratha'',
     ''chapati'', ''idli'',
     ''dosa'', ''uttapam'', ''poha'', ''upma'', ''chole'', ''rajma'', ''kadhi'', ''sabzi'',
     ''aloo'', ''gobi'', ''bhindi'',
     ''baingan'', ''kheer'', ''gulab jamun'', ''jalebi'', ''laddu'', ''halwa'', ''pulao'',
     ''khichdi'', ''rasgulla'',
     ''malai kofta'', ''palak paneer'', ''matar paneer'', ''veg curry'', ''veg biryani'',
     ''veg pulao'', ''tikka'',
     ''chaat'', ''pani puri'', ''bhel puri'', ''sev puri'', ''dahi puri'', ''vada pav'',
     ''misal pav'', ''pav bhaji'']"

definition isFoodRelated :: "string \<Rightarrow> bool" where
  "isFoodRelated desc = list_ex (\<lambda>keyword. includesStr (toLowerCase desc) keyword) foodKeywords"

definition genericCategories :: "string list" where
  "genericCategories =
    [''food'', ''staple food'', ''dish'', ''meal'', ''fruit'', ''vegetable'', ''meat'', ''bread'',
     ''drink'', ''beverage'', ''produce'', ''plant'', ''cuisine'']"

definition isGenericCategory :: "string \<Rightarrow> bool" where
  "isGenericCategory desc = (toLowerCase desc \<in> set genericCategories)"


section \<open>Annotations: merging, sorting, selection and description\<close>

text \<open>
  One entry of \<open>VisionApiResponse.responses\<close>: both annotation arrays are optional.
  Field names that occur in several interfaces of the source carry a prefix here.
\<close>

record LabelAnnotation =
  la_description :: string
  la_score :: number

record ObjectAnnotation =
  oa_name :: string
  oa_score :: number

record VisionData =
  labelAnnotations :: "LabelAnnotation list option"
  localizedObjectAnnotations :: "ObjectAnnotation list option"

record Annotation =
  atype :: string
  description :: string
  score :: number

text \<open>\<open>xs || []\<close> on an optional array.\<close>

definition orEmpty :: "'a list option \<Rightarrow> 'a list" where
  "orEmpty xs = (case xs of None \<Rightarrow> [] | Some ys \<Rightarrow> ys)"

text \<open>
  \<open>Array.prototype.sort\<close> with the comparator \<open>(a, b) => b.score - a.score\<close>: the
  sort is stable, and on finite scores the comparator is the descending order of the
  scores, so the result is the stable sort by descending score.
\<close>

definition sortByScoreDesc :: "Annotation list \<Rightarrow> Annotation list" where
  "sortByScoreDesc xs = sort_key (\<lambda>a. - score a) xs"

definition mergeAnnotations :: "VisionData \<Rightarrow> Annotation list" where
  "mergeAnnotations data =
     map (\<lambda>a. \<lparr>atype = ''label'', description = la_description a, score = la_score a\<rparr>)
       (orEmpty (labelAnnotations data))
     @ map (\<lambda>a. \<lparr>atype = ''object'', description = oa_name a, score = oa_score a\<rparr>)
       (orEmpty (localizedObjectAnnotations data))"

definition allAnnotations :: "VisionData \<Rightarrow> Annotation list" where
  "allAnnotations data = sortByScoreDesc (mergeAnnotations data)"

text \<open>\<open>s || 'Unknown Food'\<close> on a string: the empty string is falsy.\<close>

definition orUnknownFood :: "string \<Rightarrow> string" where
  "orUnknownFood s = (if s = [] then ''Unknown Food'' else s)"

text \<open>
  Lines 156 to 175 of \<open>analyzeFoodImage\<close>: the pair \<open>(usdaQueryName, name)\<close>
  after the three-way branch, both starting at \<open>'Unknown Food'\<close>.
\<close>

definition selectNames :: "Annotation list \<Rightarrow> string \<times> string" where
  "selectNames anns =
     (let bestAnnotationForDisplay = find (\<lambda>a. isFoodRelated (description a)) anns;
          specificAnnotation =
            find (\<lambda>a. isFoodRelated (description a) \<and> \<not> isGenericCategory (description a)) anns
      in case specificAnnotation of
           Some a \<Rightarrow> (description a, orUnknownFood (description a))
         | None \<Rightarrow>
             (case bestAnnotationForDisplay of
                Some a \<Rightarrow> (description a, orUnknownFood (description a))
              | None \<Rightarrow>
                  (case anns of
                     a # _ \<Rightarrow> (description a, orUnknownFood (description a))
                   | [] \<Rightarrow> (''Unknown Food'', ''Unknown Food''))))"

text \<open>
  Lines 177 to 179. The rendering \<open>(a.score * 100).toFixed(2)\<close> is computed by the
  JavaScript engine in double arithmetic; it is the parameter \<open>percent2\<close>.
\<close>

definition renderAnnotation :: "(number \<Rightarrow> string) \<Rightarrow> Annotation \<Rightarrow> string" where
  "renderAnnotation percent2 a =
     description a @ '' ('' @ percent2 (score a) @ ''%) ['' @ atype a @ '']''"

definition describeAnnotations :: "(number \<Rightarrow> string) \<Rightarrow> Annotation list \<Rightarrow> string" where
  "describeAnnotations percent2 anns =
     (if find (\<lambda>a. isFoodRelated (description a)) anns \<noteq> None \<or> length anns > 0
      then join '', '' (map (renderAnnotation percent2) anns)
      else ''No detailed description available.'')"

section \<open>Nutrient extraction and the nutrition lookup\<close>

record Nutrient =
  nutrientName :: string
  nvalue :: number
  unitName :: string

record FoodData =
  fdcId :: int
  fd_description :: string
  foodCategory :: "string option"
  foodNutrients :: "Nutrient list"

record NutritionalData =
  calories :: number
  protein :: number
  carbs :: number
  fat :: number
  fiber :: "number option"
  sugar :: "number option"
  sodium :: "number option"

text \<open>The body of the \<open>forEach\<close> callback, lines 247 to 264.\<close>

definition applyNutrient :: "NutritionalData \<Rightarrow> Nutrient \<Rightarrow> NutritionalData" where
  "applyNutrient nutritionalData nutrient =
     (let nm = toLowerCase (nutrientName nutrient) in
      if includesStr nm ''energy'' then nutritionalData\<lparr>calories := nvalue nutrient\<rparr>
      else if includesStr nm ''protein'' then nutritionalData\<lparr>protein := nvalue nutrient\<rparr>
      else if includesStr nm ''carbohydrate'' then nutritionalData\<lparr>carbs := nvalue nutrient\<rparr>
      else if includesStr nm ''total lipid'' \<or> includesStr nm ''fat''
        then nutritionalData\<lparr>fat := nvalue nutrient\<rparr>
      else if includesStr nm ''fiber'' then nutritionalData\<lparr>fiber := Some (nvalue nutrient)\<rparr>
      else if includesStr nm ''sugar'' then nutritionalData\<lparr>sugar := Some (nvalue nutrient)\<rparr>
      else if includesStr nm ''sodium'' then nutritionalData\<lparr>sodium := Some (nvalue nutrient)\<rparr>
      else nutritionalData)"

definition initialNutritionalData :: NutritionalData where
  "initialNutritionalData =
     \<lparr>calories = 0, protein = 0, carbs = 0, fat = 0, fiber = None, sugar = None, sodium = None\<rparr>"

definition extractNutritionalData :: "Nutrient list \<Rightarrow> NutritionalData" where
  "extractNutritionalData nutrients = foldl applyNutrient initialNutritionalData nutrients"

text \<open>
  A thrown JavaScript error: its message and, for a failed HTTP request, the status of
  the response when there is one (\<open>error.response.status\<close>).
\<close>

record js_error =
  message :: string
  status :: "int option"

definition Error :: "string \<Rightarrow> js_error" where
  "Error msg = \<lparr>message = msg, status = None\<rparr>"

text \<open>
  The search request of line 227, by its parts: the query (URL-encoded in the source),
  the data type filter, the page size and the key.
\<close>

record usda_request =
  query :: string
  dataType :: string
  pageSize :: nat
  api_key :: string

definition searchRequest :: "string \<Rightarrow> string \<Rightarrow> usda_request" where
  "searchRequest key foodName =
     \<lparr>query = foodName, dataType = ''Survey (FNDDS)'', pageSize = 5, api_key = key\<rparr>"

text \<open>
  Everything outside the two functions: the configured keys (\<open>undefined\<close> is
  \<open>None\<close>), the file system, the two remote services (a rejected promise is
  \<open>Inl\<close>; a fulfilled one carries \<open>responses\<close>, respectively \<open>foods\<close>), the
  engine's message for reading a property of \<open>undefined\<close>, and the engine's
  rendering of a score as a percentage.
\<close>

record env =
  GOOGLE_API_KEY :: "string option"
  USDA_API_KEY :: "string option"
  readAsStringAsync :: "string \<Rightarrow> js_error + string"
  visionPost :: "string \<Rightarrow> string \<Rightarrow> js_error + VisionData list"
  usdaGet :: "usda_request \<Rightarrow> js_error + FoodData list"
  typeErrorMessage :: string
  percent2 :: "number \<Rightarrow> string"

text \<open>The \<open>try\<close> block of \<open>fetchNutritionalData\<close>, lines 217 to 266.\<close>

definition fetchNutritionalData_try :: "env \<Rightarrow> string \<Rightarrow> js_error + NutritionalData" where
  "fetchNutritionalData_try e foodName =
     (case USDA_API_KEY e of
        None \<Rightarrow> Inl (Error ''USDA API key is not set. Please configure it in your .env and app.json.'')
      | Some key \<Rightarrow>
          if key = [] then
            Inl (Error ''USDA API key is not set. Please configure it in your .env and app.json.'')
          else
            (case usdaGet e (searchRequest key foodName) of
               Inl err \<Rightarrow> Inl err
             | Inr foods \<Rightarrow>
                 (case foods of
                    [] \<Rightarrow> Inl (Error (''No matching food found for '' @ foodName))
                  | foodData # _ \<Rightarrow> Inr (extractNutritionalData (foodNutrients foodData)))))"

text \<open>The function with its \<open>catch\<close> block, lines 267 to 270: every error is replaced.\<close>

definition fetchNutritionalData :: "env \<Rightarrow> string \<Rightarrow> js_error + NutritionalData" where
  "fetchNutritionalData e foodName =
     (case fetchNutritionalData_try e foodName of
        Inl err \<Rightarrow> Inl (Error (''Failed to fetch nutritional data for '' @ foodName))
      | Inr nutritionalData \<Rightarrow> Inr nutritionalData)"

section \<open>The orchestrator \<open>analyzeFoodImage\<close>\<close>

record FoodAnalysisResult =
  name :: string
  r_description :: string
  nutritionalData :: "NutritionalData option"
  isFoodItem :: bool

text \<open>
  Lines 116 to 198, once \<open>responses[0]\<close> is there. The second component is the list
  of the names \<open>fetchNutritionalData\<close> was called with, in order: the trace of the
  lookups attempted.
\<close>

definition assembleResult :: "env \<Rightarrow> VisionData \<Rightarrow> FoodAnalysisResult \<times> string list" where
  "assembleResult e data =
     (let anns = allAnnotations data;
          usdaQueryName = fst (selectNames anns);
          displayName = snd (selectNames anns);
          descr = describeAnnotations (percent2 e) anns
      in if usdaQueryName \<noteq> ''Unknown Food''
         then (\<lparr>name = displayName, r_description = descr,
                 nutritionalData =
                   (case fetchNutritionalData e usdaQueryName of
                      Inl err \<Rightarrow> None
                    | Inr d \<Rightarrow> Some d),
                 isFoodItem = True\<rparr>, [usdaQueryName])
         else (\<lparr>name = displayName, r_description = descr, nutritionalData = None,
                 isFoodItem = False\<rparr>, []))"

text \<open>The \<open>try\<close> block of \<open>analyzeFoodImage\<close>, lines 70 to 198.\<close>

definition analyzeFoodImage_try ::
  "env \<Rightarrow> string \<Rightarrow> js_error + (FoodAnalysisResult \<times> string list)" where
  "analyzeFoodImage_try e imageUri =
     (case GOOGLE_API_KEY e of
        None \<Rightarrow> Inl (Error ''Google Cloud Vision API key is not set. Please configure it in your .env and app.json.'')
      | Some key \<Rightarrow>
          if key = [] then
            Inl (Error ''Google Cloud Vision API key is not set. Please configure it in your .env and app.json.'')
          else
            (case readAsStringAsync e imageUri of
               Inl err \<Rightarrow> Inl err
             | Inr base64Image \<Rightarrow>
                 (case visionPost e key base64Image of
                    Inl err \<Rightarrow> Inl err
                  | Inr responses \<Rightarrow>
                      (case responses of
                         [] \<Rightarrow> Inl (Error (typeErrorMessage e))
                       | data # _ \<Rightarrow> Inr (assembleResult e data)))))"

text \<open>The \<open>catch\<close> block, lines 199 to 208: what the caller receives instead.\<close>

definition rethrow :: "js_error \<Rightarrow> js_error" where
  "rethrow err =
     (if status err = Some 403 then
        Error ''Google Cloud Vision API access denied (403). Please check if your API key is valid and the API is enabled for your project.''
      else
        Error (''Failed to analyze food image. Please try again. Error: ''
               @ (if message err = [] then ''Unknown error'' else message err)))"

definition analyzeFoodImage ::
  "env \<Rightarrow> string \<Rightarrow> js_error + (FoodAnalysisResult \<times> string list)" where
  "analyzeFoodImage e imageUri =
     (case analyzeFoodImage_try e imageUri of
        Inl err \<Rightarrow> Inl (rethrow err)
      | Inr r \<Rightarrow> Inr r)"


section \<open>Saving a result (\<open>handleSaveToHistory\<close> in \<open>src/screens/ResultScreen.tsx\<close>)\<close>

text \<open>
  The screen keeps the analysis in a state variable whose \<open>isFoodItem\<close> is
  optional: the fallback after a failed analysis has neither \<open>isFoodItem\<close> nor
  \<open>nutritionalData\<close>.
\<close>

record FoodDataState =
  fs_name :: string
  fs_description :: string
  fs_nutritionalData :: "NutritionalData option"
  fs_isFoodItem :: "bool option"

definition setFoodData :: "FoodAnalysisResult \<Rightarrow> FoodDataState" where
  "setFoodData r =
     \<lparr>fs_name = name r, fs_description = r_description r,
      fs_nutritionalData = nutritionalData r, fs_isFoodItem = Some (isFoodItem r)\<rparr>"

record User =
  uid :: string

record MealItem =
  item_name :: string
  item_calories :: number
  item_protein :: number
  item_carbs :: number
  item_fats :: number
  item_fiber :: number
  item_sugar :: number
  item_sodium :: number

record MealTotal =
  t_calories :: number
  t_protein :: number
  t_carbs :: number
  t_fats :: number
  t_fiber :: number
  t_sugar :: number
  t_sodium :: number

record AnalysisData =
  items :: "MealItem list"
  total :: MealTotal

record MealRow =
  user_id :: string
  image_url :: string
  analysis_data :: AnalysisData

text \<open>
  \<open>x || 0\<close> on an optional number: \<open>undefined\<close> and \<open>0\<close> are falsy. (\<open>NaN\<close> is
  falsy too; it is not a value of \<^typ>\<open>number\<close> here, as no parsed JSON document
  holds it.)
\<close>

definition orZero :: "number option \<Rightarrow> number" where
  "orZero x = (case x of None \<Rightarrow> 0 | Some v \<Rightarrow> if v = 0 then 0 else v)"

definition buildAnalysisData :: "FoodDataState \<Rightarrow> AnalysisData" where
  "buildAnalysisData foodData =
     (let nd = fs_nutritionalData foodData in
      \<lparr>items =
         [\<lparr>item_name = fs_name foodData,
           item_calories = orZero (map_option calories nd),
           item_protein = orZero (map_option protein nd),
           item_carbs = orZero (map_option carbs nd),
           item_fats = orZero (map_option fat nd),
           item_fiber = orZero (Option.bind nd fiber),
           item_sugar = orZero (Option.bind nd sugar),
           item_sodium = orZero (Option.bind nd sodium)\<rparr>],
       total =
         \<lparr>t_calories = orZero (map_option calories nd),
          t_protein = orZero (map_option protein nd),
          t_carbs = orZero (map_option carbs nd),
          t_fats = orZero (map_option fat nd),
          t_fiber = orZero (Option.bind nd fiber),
          t_sugar = orZero (Option.bind nd sugar),
          t_sodium = orZero (Option.bind nd sodium)\<rparr>\<rparr>)"

text \<open>
  The record store's answer to \<open>insert\<close>: fulfilled without an error, fulfilled
  with an error, or rejected.
\<close>

datatype insert_outcome = InsertOk | InsertError | InsertThrows

text \<open>
  What one run of the handler does: the alert shown, whether it navigated to the
  history, the value of \<open>isSaved\<close> afterwards and the rows passed to \<open>insert\<close>.
\<close>

record SaveEffect =
  alert :: "string \<times> string"
  navigated :: bool
  isSavedAfter :: bool
  inserted :: "MealRow list"

definition handleSaveToHistory ::
  "(MealRow \<Rightarrow> insert_outcome) \<Rightarrow> User option \<Rightarrow> string option \<Rightarrow> FoodDataState option \<Rightarrow> bool
     \<Rightarrow> SaveEffect" where
  "handleSaveToHistory insertRow user imageUri foodData isSaved =
     (case (user, imageUri, foodData) of
        (Some u, Some uri, Some fd) \<Rightarrow>
          if uri = [] then
            \<lparr>alert = (''Info'', ''Data incomplete. Cannot save to history.''),
             navigated = False, isSavedAfter = isSaved, inserted = []\<rparr>
          else if fs_isFoodItem fd \<noteq> Some True \<or> fs_nutritionalData fd = None then
            \<lparr>alert = (''Error'', ''This does not appear to be a recognizable food item. Cannot save to history.''),
             navigated = False, isSavedAfter = isSaved, inserted = []\<rparr>
          else if isSaved then
            \<lparr>alert = (''Info'', ''Meal already saved to history.''),
             navigated = True, isSavedAfter = isSaved, inserted = []\<rparr>
          else
            (let row = \<lparr>user_id = uid u, image_url = uri, analysis_data = buildAnalysisData fd\<rparr>
             in case insertRow row of
                  InsertError \<Rightarrow>
                    \<lparr>alert = (''Error'', ''Failed to save meal data''),
                     navigated = False, isSavedAfter = isSaved, inserted = [row]\<rparr>
                | InsertOk \<Rightarrow>
                    \<lparr>alert = (''Success'', ''Meal saved to history!''),
                     navigated = True, isSavedAfter = True, inserted = [row]\<rparr>
                | InsertThrows \<Rightarrow>
                    \<lparr>alert = (''Error'', ''Unexpected error occurred''),
                     navigated = False, isSavedAfter = isSaved, inserted = [row]\<rparr>)
      | _ \<Rightarrow>
          \<lparr>alert = (''Info'', ''Data incomplete. Cannot save to history.''),
           navigated = False, isSavedAfter = isSaved, inserted = []\<rparr>)"

section \<open>The categories of nutrient extraction, by name\<close>

text \<open>
  The seven branches of the \<open>forEach\<close> callback, named: the condition each one tests
  on the lower-cased nutrient name, the order in which they are tried, the field each
  one assigns and the field read back. A required field is always present.
\<close>

datatype category = Calories | Protein | Carbs | Fat | Fiber | Sugar | Sodium

fun matchesCategory :: "category \<Rightarrow> string \<Rightarrow> bool" where
  "matchesCategory Calories nm = includesStr nm ''energy''"
| "matchesCategory Protein nm = includesStr nm ''protein''"
| "matchesCategory Carbs nm = includesStr nm ''carbohydrate''"
| "matchesCategory Fat nm = (includesStr nm ''total lipid'' \<or> includesStr nm ''fat'')"
| "matchesCategory Fiber nm = includesStr nm ''fiber''"
| "matchesCategory Sugar nm = includesStr nm ''sugar''"
| "matchesCategory Sodium nm = includesStr nm ''sodium''"

definition chainOrder :: "category list" where
  "chainOrder = [Calories, Protein, Carbs, Fat, Fiber, Sugar, Sodium]"

definition categoryOf :: "string \<Rightarrow> category option" where
  "categoryOf nutrientNm = find (\<lambda>c. matchesCategory c (toLowerCase nutrientNm)) chainOrder"

fun setField :: "category \<Rightarrow> number \<Rightarrow> NutritionalData \<Rightarrow> NutritionalData" where
  "setField Calories v d = d\<lparr>calories := v\<rparr>"
| "setField Protein v d = d\<lparr>protein := v\<rparr>"
| "setField Carbs v d = d\<lparr>carbs := v\<rparr>"
| "setField Fat v d = d\<lparr>fat := v\<rparr>"
| "setField Fiber v d = d\<lparr>fiber := Some v\<rparr>"
| "setField Sugar v d = d\<lparr>sugar := Some v\<rparr>"
| "setField Sodium v d = d\<lparr>sodium := Some v\<rparr>"

fun fieldOf :: "category \<Rightarrow> NutritionalData \<Rightarrow> number option" where
  "fieldOf Calories d = Some (calories d)"
| "fieldOf Protein d = Some (protein d)"
| "fieldOf Carbs d = Some (carbs d)"
| "fieldOf Fat d = Some (fat d)"
| "fieldOf Fiber d = fiber d"
| "fieldOf Sugar d = sugar d"
| "fieldOf Sodium d = sodium d"

text \<open>
  An annotation is a specific food when its text is food-related and not a generic
  category: the predicate of \<open>specificAnnotation\<close>.
\<close>

definition isSpecificFood :: "Annotation \<Rightarrow> bool" where
  "isSpecificFood a = (isFoodRelated (description a) \<and> \<not> isGenericCategory (description a))"


section \<open>Sample inputs\<close>

definition waterAndVitamin :: "Nutrient list" where
  "waterAndVitamin =
     [\<lparr>nutrientName = ''Water'', nvalue = 50, unitName = ''G''\<rparr>,
      \<lparr>nutrientName = ''Vitamin C, total ascorbic acid'', nvalue = 3, unitName = ''MG''\<rparr>]"

definition twoSodium :: "Nutrient list" where
  "twoSodium =
     [\<lparr>nutrientName = ''Sodium, Na'', nvalue = 100, unitName = ''MG''\<rparr>,
      \<lparr>nutrientName = ''Sodium, Na'', nvalue = 120, unitName = ''MG''\<rparr>]"

definition proteinOnly :: "Nutrient list" where
  "proteinOnly = [\<lparr>nutrientName = ''Protein'', nvalue = 12, unitName = ''G''\<rparr>]"

definition proteinFat :: Nutrient where
  "proteinFat = \<lparr>nutrientName = ''Protein fat'', nvalue = 7, unitName = ''G''\<rparr>"

text \<open>
  A rendering of a score between 0 and 1 as a percentage with two decimals, in exact
  arithmetic, to stand for the engine's in the sample environment.
\<close>

definition digit :: "int \<Rightarrow> char" where
  "digit d = char_of (48 + d mod 10)"

definition percentDigits :: "int \<Rightarrow> string" where
  "percentDigits n =
     (if 10000 \<le> n then [digit (n div 10000)] else [])
     @ (if 1000 \<le> n then [digit (n div 1000)] else [])
     @ [digit (n div 100), CHR ''.'', digit (n div 10), digit n]"

definition samplePercent2 :: "number \<Rightarrow> string" where
  "samplePercent2 s = percentDigits \<lfloor>s * 10000 + 1 / 2\<rfloor>"

definition pizzaFood :: FoodData where
  "pizzaFood =
     \<lparr>fdcId = 2708500, fd_description = ''Pizza, cheese'', foodCategory = Some ''Pizza'',
      foodNutrients =
        [\<lparr>nutrientName = ''Protein'', nvalue = 11, unitName = ''G''\<rparr>,
         \<lparr>nutrientName = ''Total lipid (fat)'', nvalue = 10, unitName = ''G''\<rparr>,
         \<lparr>nutrientName = ''Carbohydrate, by difference'', nvalue = 33, unitName = ''G''\<rparr>,
         \<lparr>nutrientName = ''Energy'', nvalue = 266, unitName = ''KCAL''\<rparr>,
         \<lparr>nutrientName = ''Sodium, Na'', nvalue = 598, unitName = ''MG''\<rparr>]\<rparr>"

definition saladFood :: FoodData where
  "saladFood =
     \<lparr>fdcId = 2709000, fd_description = ''Pizza salad'', foodCategory = None,
      foodNutrients = [\<lparr>nutrientName = ''Energy'', nvalue = 90, unitName = ''KCAL''\<rparr>]\<rparr>"

definition sampleEnv :: "(js_error + VisionData list) \<Rightarrow> env" where
  "sampleEnv vision =
     \<lparr>GOOGLE_API_KEY = Some ''google-key'', USDA_API_KEY = Some ''usda-key'',
      readAsStringAsync = (\<lambda>uri. Inr ''aW1hZ2U=''),
      visionPost = (\<lambda>key img. vision),
      usdaGet = (\<lambda>req. if query req = ''Pizza'' then Inr [pizzaFood, saladFood] else Inr []),
      typeErrorMessage = ''undefined is not an object'',
      percent2 = samplePercent2\<rparr>"

definition pizzaData :: VisionData where
  "pizzaData =
     \<lparr>labelAnnotations =
        Some [\<lparr>la_description = ''Pizza'', la_score = 90 / 100\<rparr>,
              \<lparr>la_description = ''food'', la_score = 98 / 100\<rparr>],
      localizedObjectAnnotations = Some [\<lparr>oa_name = ''Food'', oa_score = 85 / 100\<rparr>]\<rparr>"

definition carData :: VisionData where
  "carData =
     \<lparr>labelAnnotations = Some [\<lparr>la_description = ''car'', la_score = 97 / 100\<rparr>],
      localizedObjectAnnotations = None\<rparr>"

definition emptyTextData :: VisionData where
  "emptyTextData =
     \<lparr>labelAnnotations = Some [\<lparr>la_description = [], la_score = 9 / 10\<rparr>],
      localizedObjectAnnotations = None\<rparr>"

definition noData :: VisionData where
  "noData = \<lparr>labelAnnotations = None, localizedObjectAnnotations = None\<rparr>"

definition pizzaResult :: FoodAnalysisResult where
  "pizzaResult =
     \<lparr>name = ''Pizza'',
      r_description = ''food (98.00%) [label], Pizza (90.00%) [label], Food (85.00%) [object]'',
      nutritionalData =
        Some \<lparr>calories = 266, protein = 11, carbs = 33, fat = 10, fiber = None, sugar = None,
              sodium = Some 598\<rparr>,
      isFoodItem = True\<rparr>"

definition networkError :: js_error where
  "networkError = \<lparr>message = ''Network Error'', status = None\<rparr>"

definition serverError :: js_error where
  "serverError = \<lparr>message = ''Request failed with status code 500'', status = Some 500\<rparr>"

definition sampleUser :: User where
  "sampleUser = \<lparr>uid = ''user-1''\<rparr>"

section \<open>The substring test\<close>

lemma startsWith_iff: "startsWith s k \<longleftrightarrow> (\<exists>q. s = k @ q)"
  by (induction s k rule: startsWith.induct) auto

lemma includesStr_iff: "includesStr s k \<longleftrightarrow> (\<exists>p q. s = p @ k @ q)"
proof (induction s)
  case Nil
  then show ?case by auto
next
  case (Cons c cs)
  show ?case
  proof
    assume "includesStr (c # cs) k"
    then consider "startsWith (c # cs) k" | "includesStr cs k" by auto
    then show "\<exists>p q. c # cs = p @ k @ q"
    proof cases
      case 1
      then obtain q where "c # cs = k @ q" using startsWith_iff by blast
      then have "c # cs = [] @ k @ q" by simp
      then show ?thesis by blast
    next
      case 2
      then obtain p q where "cs = p @ k @ q" using Cons.IH by blast
      then have "c # cs = (c # p) @ k @ q" by simp
      then show ?thesis by blast
    qed
  next
    assume "\<exists>p q. c # cs = p @ k @ q"
    then obtain p q where pq: "c # cs = p @ k @ q" by blast
    show "includesStr (c # cs) k"
    proof (cases p)
      case Nil
      with pq have "startsWith (c # cs) k" using startsWith_iff by auto
      then show ?thesis by simp
    next
      case (Cons x p')
      with pq have "cs = p' @ k @ q" by simp
      then have "includesStr cs k" using Cons.IH by blast
      then show ?thesis by simp
    qed
  qed
qed

section \<open>Nutrient extraction\<close>

text \<open>One step of the loop assigns the field of the first category that matches.\<close>

lemma applyNutrient_categoryOf:
  "applyNutrient d n =
     (case categoryOf (nutrientName n) of None \<Rightarrow> d | Some c \<Rightarrow> setField c (nvalue n) d)"
  by (simp add: applyNutrient_def categoryOf_def chainOrder_def Let_def)

lemma fieldOf_setField:
  "fieldOf c' (setField c v d) = (if c' = c then Some v else fieldOf c' d)"
  by (cases c; cases c'; simp)

lemma fieldOf_applyNutrient:
  "fieldOf c (applyNutrient d n) =
     (if categoryOf (nutrientName n) = Some c then Some (nvalue n) else fieldOf c d)"
  by (auto simp: applyNutrient_categoryOf fieldOf_setField split: option.splits)

lemma fieldOf_foldl_unmatched:
  "\<forall>m\<in>set ns. categoryOf (nutrientName m) \<noteq> Some c \<Longrightarrow>
   fieldOf c (foldl applyNutrient d ns) = fieldOf c d"
  by (induction ns arbitrary: d) (simp_all add: fieldOf_applyNutrient)

text \<open>
  Claim C3. When several nutrients of the list fall into the same category, the last
  of them in list order gives the field its value, and nothing is added up: if \<open>n\<close>
  falls into category \<open>c\<close> and no nutrient after it does, the extracted field \<open>c\<close>
  is the value of \<open>n\<close>, whatever came before.
\<close>

theorem last_matching_nutrient_wins:
  assumes "categoryOf (nutrientName n) = Some c"
    and "\<forall>m\<in>set ys. categoryOf (nutrientName m) \<noteq> Some c"
  shows "fieldOf c (extractNutritionalData (xs @ n # ys)) = Some (nvalue n)"
  using assms
  by (simp add: extractNutritionalData_def fieldOf_foldl_unmatched fieldOf_applyNutrient)

text \<open>
  Scenario D: two sodium entries with the values 100 and 120, in that order, give the
  sodium 120.
\<close>

theorem last_matching_nutrient_wins_witness:
  "categoryOf ''Sodium, Na'' = Some Sodium
   \<and> twoSodium =
       [\<lparr>nutrientName = ''Sodium, Na'', nvalue = 100, unitName = ''MG''\<rparr>]
       @ \<lparr>nutrientName = ''Sodium, Na'', nvalue = 120, unitName = ''MG''\<rparr> # []
   \<and> sodium (extractNutritionalData twoSodium) = Some 120"
proof -
  have c: "categoryOf ''Sodium, Na'' = Some Sodium"
    by code_simp
  have l: "twoSodium =
       [\<lparr>nutrientName = ''Sodium, Na'', nvalue = 100, unitName = ''MG''\<rparr>]
       @ \<lparr>nutrientName = ''Sodium, Na'', nvalue = 120, unitName = ''MG''\<rparr> # []"
    by (simp add: twoSodium_def)
  have "fieldOf Sodium (extractNutritionalData
          ([\<lparr>nutrientName = ''Sodium, Na'', nvalue = 100, unitName = ''MG''\<rparr>]
           @ \<lparr>nutrientName = ''Sodium, Na'', nvalue = 120, unitName = ''MG''\<rparr> # []))
        = Some 120"
    using last_matching_nutrient_wins
      [of "\<lparr>nutrientName = ''Sodium, Na'', nvalue = 120, unitName = ''MG''\<rparr>" Sodium "[]"
          "[\<lparr>nutrientName = ''Sodium, Na'', nvalue = 100, unitName = ''MG''\<rparr>]"] c
    by simp
  with c l show ?thesis by simp
qed

text \<open>
  Claim C5, as the claim has it: every field, the optional ones too, is 0 when no
  nutrient matches it. It fails: a list with a protein entry only leaves fiber, sugar
  and sodium undefined.
\<close>

theorem optional_fields_not_zero_counterexample:
  "fiber (extractNutritionalData proteinOnly) \<noteq> Some 0
   \<and> sugar (extractNutritionalData proteinOnly) \<noteq> Some 0
   \<and> sodium (extractNutritionalData proteinOnly) \<noteq> Some 0"
  by code_simp

text \<open>
  Claim C5, amended. When no nutrient of the list falls into a category, a required
  field (calories, protein, carbs, fat) is 0 and an optional field (fiber, sugar,
  sodium) is undefined.
\<close>

theorem unmatched_field_defaults:
  "((\<forall>n\<in>set ns. categoryOf (nutrientName n) \<noteq> Some Calories)
      \<longrightarrow> calories (extractNutritionalData ns) = 0)
   \<and> ((\<forall>n\<in>set ns. categoryOf (nutrientName n) \<noteq> Some Protein)
      \<longrightarrow> protein (extractNutritionalData ns) = 0)
   \<and> ((\<forall>n\<in>set ns. categoryOf (nutrientName n) \<noteq> Some Carbs)
      \<longrightarrow> carbs (extractNutritionalData ns) = 0)
   \<and> ((\<forall>n\<in>set ns. categoryOf (nutrientName n) \<noteq> Some Fat)
      \<longrightarrow> fat (extractNutritionalData ns) = 0)
   \<and> ((\<forall>n\<in>set ns. categoryOf (nutrientName n) \<noteq> Some Fiber)
      \<longrightarrow> fiber (extractNutritionalData ns) = None)
   \<and> ((\<forall>n\<in>set ns. categoryOf (nutrientName n) \<noteq> Some Sugar)
      \<longrightarrow> sugar (extractNutritionalData ns) = None)
   \<and> ((\<forall>n\<in>set ns. categoryOf (nutrientName n) \<noteq> Some Sodium)
      \<longrightarrow> sodium (extractNutritionalData ns) = None)"
proof -
  have g: "fieldOf c (extractNutritionalData ns) = fieldOf c initialNutritionalData"
    if "\<forall>n\<in>set ns. categoryOf (nutrientName n) \<noteq> Some c" for c
    using that by (simp add: extractNutritionalData_def fieldOf_foldl_unmatched)
  show ?thesis
    using g [of Calories] g [of Protein] g [of Carbs] g [of Fat] g [of Fiber] g [of Sugar]
      g [of Sodium]
    by (simp add: initialNutritionalData_def)
qed

theorem unmatched_field_defaults_witness:
  "map (\<lambda>n. categoryOf (nutrientName n)) waterAndVitamin = [None, None]
   \<and> extractNutritionalData waterAndVitamin =
       \<lparr>calories = 0, protein = 0, carbs = 0, fat = 0, fiber = None, sugar = None,
        sodium = None\<rparr>"
proof -
  have m: "map (\<lambda>n. categoryOf (nutrientName n)) waterAndVitamin = [None, None]"
    by code_simp
  have "\<forall>x\<in>set (map (\<lambda>n. categoryOf (nutrientName n)) waterAndVitamin). x = None"
    unfolding m by simp
  then have h: "\<forall>n\<in>set waterAndVitamin. categoryOf (nutrientName n) \<noteq> Some c" for c
    by simp
  show ?thesis
    using m unmatched_field_defaults [of waterAndVitamin] h
    by (cases "extractNutritionalData waterAndVitamin") simp
qed

text \<open>
  Claim C10. One nutrient entry changes at most one field. The branches are tried in
  the order energy, protein, carbohydrate, total lipid or fat, fiber, sugar, sodium,
  and the entry assigns the field of the first branch whose substring occurs in its
  lower-cased name, and no other field, also when later branches would match too.
\<close>

theorem nutrient_sets_first_matching_category_only:
  "applyNutrient d n =
     (case find (\<lambda>c. matchesCategory c (toLowerCase (nutrientName n)))
             [Calories, Protein, Carbs, Fat, Fiber, Sugar, Sodium] of
        None \<Rightarrow> d
      | Some c \<Rightarrow> setField c (nvalue n) d)
   \<and> (\<forall>c. categoryOf (nutrientName n) \<noteq> Some c
          \<longrightarrow> fieldOf c (applyNutrient d n) = fieldOf c d)
   \<and> (\<forall>c1 c2. fieldOf c1 (applyNutrient d n) \<noteq> fieldOf c1 d
          \<and> fieldOf c2 (applyNutrient d n) \<noteq> fieldOf c2 d \<longrightarrow> c1 = c2)"
proof -
  have a: "applyNutrient d n =
     (case find (\<lambda>c. matchesCategory c (toLowerCase (nutrientName n)))
             [Calories, Protein, Carbs, Fat, Fiber, Sugar, Sodium] of
        None \<Rightarrow> d
      | Some c \<Rightarrow> setField c (nvalue n) d)"
    using applyNutrient_categoryOf [of d n] by (simp add: categoryOf_def chainOrder_def)
  have b: "fieldOf c (applyNutrient d n) = fieldOf c d"
    if "categoryOf (nutrientName n) \<noteq> Some c" for c
    using that by (simp add: fieldOf_applyNutrient)
  have c: "c1 = c2"
    if "fieldOf c1 (applyNutrient d n) \<noteq> fieldOf c1 d"
      and "fieldOf c2 (applyNutrient d n) \<noteq> fieldOf c2 d" for c1 c2
  proof -
    from that(1) have "categoryOf (nutrientName n) = Some c1" using b by blast
    moreover from that(2) have "categoryOf (nutrientName n) = Some c2" using b by blast
    ultimately show ?thesis by simp
  qed
  from a b c show ?thesis by blast
qed

text \<open>
  A nutrient named \<open>Protein fat\<close> matches the protein branch and the fat branch; it
  sets the protein and leaves the fat as it was.
\<close>

theorem nutrient_sets_first_matching_category_only_witness:
  "matchesCategory Protein (toLowerCase (nutrientName proteinFat))
   \<and> matchesCategory Fat (toLowerCase (nutrientName proteinFat))
   \<and> categoryOf (nutrientName proteinFat) \<noteq> Some Fat
   \<and> protein (applyNutrient initialNutritionalData proteinFat) = 7
   \<and> fat (applyNutrient initialNutritionalData proteinFat) = 0"
proof -
  have m: "matchesCategory Protein (toLowerCase (nutrientName proteinFat))
           \<and> matchesCategory Fat (toLowerCase (nutrientName proteinFat))"
    by code_simp
  have k: "categoryOf (nutrientName proteinFat) \<noteq> Some Fat"
    by code_simp
  have p: "protein (applyNutrient initialNutritionalData proteinFat) = 7"
    by code_simp
  have "fieldOf Fat (applyNutrient initialNutritionalData proteinFat)
        = fieldOf Fat initialNutritionalData"
    using nutrient_sets_first_matching_category_only [of initialNutritionalData proteinFat] k
    by blast
  then have "fat (applyNutrient initialNutritionalData proteinFat) = 0"
    by (simp add: initialNutritionalData_def)
  with m k p show ?thesis by simp
qed

section \<open>Selection\<close>

lemma no_generic_vocab:
  "\<forall>g\<in>set genericCategories. \<not> list_ex (\<lambda>keyword. includesStr g keyword) foodKeywords"
  by code_simp

lemma food_not_generic: "isFoodRelated s \<Longrightarrow> \<not> isGenericCategory s"
  using no_generic_vocab by (auto simp: isFoodRelated_def isGenericCategory_def)

lemma isFoodRelated_nonempty: "isFoodRelated s \<Longrightarrow> s \<noteq> []"
  by (auto simp: isFoodRelated_def foodKeywords_def toLowerCase_def)

lemma find_first: "(\<forall>b\<in>set pre. \<not> P b) \<Longrightarrow> P a \<Longrightarrow> find P (pre @ a # post) = Some a"
  by (induction pre) auto

lemma find_none: "(\<forall>b\<in>set xs. \<not> P b) \<Longrightarrow> find P xs = None"
  by (induction xs) auto

lemma allAnnotations_sorted: "sorted_wrt (\<lambda>a b. score b \<le> score a) (allAnnotations data)"
proof -
  have "sorted (map (\<lambda>a. - score a) (allAnnotations data))"
    by (simp add: allAnnotations_def sortByScoreDesc_def)
  then show ?thesis by (simp add: sorted_map)
qed


lemma selectNames_find:
  "selectNames anns =
     (case find isSpecificFood anns of
        Some a \<Rightarrow> (description a, orUnknownFood (description a))
      | None \<Rightarrow>
          (case find (\<lambda>a. isFoodRelated (description a)) anns of
             Some a \<Rightarrow> (description a, orUnknownFood (description a))
           | None \<Rightarrow>
               (case anns of
                  a # _ \<Rightarrow> (description a, orUnknownFood (description a))
                | [] \<Rightarrow> (''Unknown Food'', ''Unknown Food''))))"
proof -
  have "isSpecificFood = (\<lambda>a. isFoodRelated (description a) \<and> \<not> isGenericCategory (description a))"
    by (rule ext) (simp add: isSpecificFood_def)
  then show ?thesis by (simp add: selectNames_def Let_def)
qed

text \<open>
  Claim C1, amended. On the sorted annotation sequence the selection is a function of
  the sequence and follows the order of priority. The first annotation that is
  food-related and not a generic category gives the query and the display name. With
  the two vocabularies of the code a food-related text is never a generic category, so
  the first food-related annotation is that same annotation. When no annotation is
  food-related, the first one, which has the top score, gives the query; it gives the
  display name too, unless its text is empty: then the display name is
  \<open>Unknown Food\<close>. When there is no annotation, both are \<open>Unknown Food\<close> and no
  lookup is attempted.
\<close>

theorem selection_follows_priority:
  assumes "anns = allAnnotations data"
  shows "(\<forall>pre a post. anns = pre @ a # post \<and> isSpecificFood a \<and> (\<forall>b\<in>set pre. \<not> isSpecificFood b)
            \<longrightarrow> selectNames anns = (description a, description a))
       \<and> (\<forall>a. isFoodRelated (description a) \<longrightarrow> isSpecificFood a)
       \<and> (\<forall>a rest. anns = a # rest \<and> (\<forall>b\<in>set anns. \<not> isFoodRelated (description b))
            \<longrightarrow> (\<forall>b\<in>set anns. score b \<le> score a)
                \<and> selectNames anns =
                    (description a, if description a = [] then ''Unknown Food'' else description a))
       \<and> (anns = [] \<longrightarrow> selectNames anns = (''Unknown Food'', ''Unknown Food'')
                          \<and> snd (assembleResult e data) = [])"
proof -
  have t1: "selectNames anns = (description a, description a)"
    if "anns = pre @ a # post" "isSpecificFood a" "\<forall>b\<in>set pre. \<not> isSpecificFood b"
    for pre a post
  proof -
    have "find isSpecificFood anns = Some a"
      using that by (simp add: find_first)
    moreover have "description a \<noteq> []"
      using that(2) isFoodRelated_nonempty by (auto simp: isSpecificFood_def)
    ultimately show ?thesis by (simp add: selectNames_find orUnknownFood_def)
  qed
  have t2: "isSpecificFood a" if "isFoodRelated (description a)" for a
    using that food_not_generic by (simp add: isSpecificFood_def)
  have t3: "(\<forall>b\<in>set anns. score b \<le> score a)
            \<and> selectNames anns =
                (description a, if description a = [] then ''Unknown Food'' else description a)"
    if "anns = a # rest" "\<forall>b\<in>set anns. \<not> isFoodRelated (description b)" for a rest
  proof -
    have "sorted_wrt (\<lambda>a b. score b \<le> score a) (a # rest)"
      using allAnnotations_sorted [of data] assms that(1) by simp
    then have top: "\<forall>b\<in>set anns. score b \<le> score a"
      using that(1) by auto
    have "\<forall>b\<in>set anns. \<not> isSpecificFood b"
      using that(2) by (simp add: isSpecificFood_def)
    then have "find isSpecificFood anns = None" by (rule find_none)
    moreover have "find (\<lambda>a. isFoodRelated (description a)) anns = None"
      using that(2) by (rule find_none)
    ultimately have "selectNames anns = (description a, orUnknownFood (description a))"
      using that(1) by (simp add: selectNames_find)
    with top show ?thesis by (simp add: orUnknownFood_def)
  qed
  have t4: "selectNames anns = (''Unknown Food'', ''Unknown Food'') \<and> snd (assembleResult e data) = []"
    if "anns = []"
  proof -
    have s: "selectNames [] = (''Unknown Food'', ''Unknown Food'')"
      by (simp add: selectNames_find)
    have "allAnnotations data = []" using assms that by simp
    with s have "snd (assembleResult e data) = []"
      by (simp add: assembleResult_def Let_def)
    with s that show ?thesis by simp
  qed
  from t1 t2 t3 t4 show ?thesis by blast
qed

text \<open>
  Claim C1, as the claim has it: the top-scoring annotation gives the query and the
  display name alike. It fails for an annotation with the empty text: the query is the
  empty text and the display name is \<open>Unknown Food\<close>.
\<close>

theorem display_name_not_annotation_text_counterexample:
  "allAnnotations emptyTextData = [\<lparr>atype = ''label'', description = [], score = 9 / 10\<rparr>]
   \<and> selectNames (allAnnotations emptyTextData) = ([], ''Unknown Food'')
   \<and> snd (selectNames (allAnnotations emptyTextData))
       \<noteq> description \<lparr>atype = ''label'', description = [], score = 9 / 10\<rparr>"
  by code_simp

text \<open>
  Claim C6. For the labels \<open>hot dog\<close> (0.95) and \<open>fast food\<close> (0.80) the sorted
  sequence keeps that order and the selection is \<open>hot dog\<close> for the query and for
  the display name.
\<close>

theorem hot_dog_selected:
  "allAnnotations
     \<lparr>labelAnnotations =
        Some [\<lparr>la_description = ''hot dog'', la_score = 95 / 100\<rparr>,
              \<lparr>la_description = ''fast food'', la_score = 80 / 100\<rparr>],
      localizedObjectAnnotations = None\<rparr>
   = [\<lparr>atype = ''label'', description = ''hot dog'', score = 95 / 100\<rparr>,
      \<lparr>atype = ''label'', description = ''fast food'', score = 80 / 100\<rparr>]
   \<and> selectNames
       [\<lparr>atype = ''label'', description = ''hot dog'', score = 95 / 100\<rparr>,
        \<lparr>atype = ''label'', description = ''fast food'', score = 80 / 100\<rparr>]
     = (''hot dog'', ''hot dog'')"
  by code_simp

theorem selection_follows_priority_witness:
  "allAnnotations pizzaData =
     [\<lparr>atype = ''label'', description = ''food'', score = 98 / 100\<rparr>]
     @ \<lparr>atype = ''label'', description = ''Pizza'', score = 90 / 100\<rparr>
     # [\<lparr>atype = ''object'', description = ''Food'', score = 85 / 100\<rparr>]
   \<and> isSpecificFood \<lparr>atype = ''label'', description = ''Pizza'', score = 90 / 100\<rparr>
   \<and> \<not> isSpecificFood \<lparr>atype = ''label'', description = ''food'', score = 98 / 100\<rparr>
   \<and> selectNames (allAnnotations pizzaData) = (''Pizza'', ''Pizza'')
   \<and> allAnnotations carData = [\<lparr>atype = ''label'', description = ''car'', score = 97 / 100\<rparr>]
   \<and> \<not> isFoodRelated ''car''
   \<and> selectNames (allAnnotations carData) = (''car'', ''car'')
   \<and> allAnnotations noData = []
   \<and> selectNames (allAnnotations noData) = (''Unknown Food'', ''Unknown Food'')
   \<and> snd (assembleResult (sampleEnv (Inr [noData])) noData) = []"
proof -
  have p1: "allAnnotations pizzaData =
     [\<lparr>atype = ''label'', description = ''food'', score = 98 / 100\<rparr>]
     @ \<lparr>atype = ''label'', description = ''Pizza'', score = 90 / 100\<rparr>
     # [\<lparr>atype = ''object'', description = ''Food'', score = 85 / 100\<rparr>]"
    by code_simp
  have p2: "isSpecificFood \<lparr>atype = ''label'', description = ''Pizza'', score = 90 / 100\<rparr>"
    by code_simp
  have p3: "\<not> isSpecificFood \<lparr>atype = ''label'', description = ''food'', score = 98 / 100\<rparr>"
    by code_simp
  have p3': "\<forall>b\<in>set [\<lparr>atype = ''label'', description = ''food'', score = 98 / 100\<rparr>].
               \<not> isSpecificFood b"
    using p3 by simp
  have "selectNames (allAnnotations pizzaData) =
          (description \<lparr>atype = ''label'', description = ''Pizza'', score = 90 / 100\<rparr>,
           description \<lparr>atype = ''label'', description = ''Pizza'', score = 90 / 100\<rparr>)"
    by (rule selection_follows_priority
              [OF refl, THEN conjunct1, rule_format, OF conjI [OF p1 conjI [OF p2 p3']]])
  then have p: "selectNames (allAnnotations pizzaData) = (''Pizza'', ''Pizza'')"
    by simp
  have c1: "allAnnotations carData = [\<lparr>atype = ''label'', description = ''car'', score = 97 / 100\<rparr>]"
    by code_simp
  have c2: "\<not> isFoodRelated ''car''"
    by code_simp
  have c2': "\<forall>b\<in>set (allAnnotations carData). \<not> isFoodRelated (description b)"
    unfolding c1 using c2 by simp
  have "(\<forall>b\<in>set (allAnnotations carData).
           score b \<le> score \<lparr>atype = ''label'', description = ''car'', score = 97 / 100\<rparr>)
        \<and> selectNames (allAnnotations carData) =
          (description \<lparr>atype = ''label'', description = ''car'', score = 97 / 100\<rparr>,
           if description \<lparr>atype = ''label'', description = ''car'', score = 97 / 100\<rparr> = []
           then ''Unknown Food''
           else description \<lparr>atype = ''label'', description = ''car'', score = 97 / 100\<rparr>)"
    by (rule selection_follows_priority
              [OF refl, THEN conjunct2, THEN conjunct2, THEN conjunct1, rule_format,
               OF conjI [OF c1 c2']])
  then have c: "selectNames (allAnnotations carData) = (''car'', ''car'')"
    by simp
  have n1: "allAnnotations noData = []"
    by code_simp
  have n: "selectNames (allAnnotations noData) = (''Unknown Food'', ''Unknown Food'')
           \<and> snd (assembleResult (sampleEnv (Inr [noData])) noData) = []"
    by (rule selection_follows_priority
              [OF refl, THEN conjunct2, THEN conjunct2, THEN conjunct2, rule_format, OF n1])
  show ?thesis
    by (intro conjI p1 p2 p3 p c1 c2 c n1 n [THEN conjunct1] n [THEN conjunct2])
qed

section \<open>The orchestrator\<close>

lemma analyzeFoodImage_Inr:
  assumes "analyzeFoodImage e imageUri = Inr res"
  shows "\<exists>key img data rest. GOOGLE_API_KEY e = Some key \<and> key \<noteq> []
           \<and> readAsStringAsync e imageUri = Inr img
           \<and> visionPost e key img = Inr (data # rest) \<and> res = assembleResult e data"
  using assms
  by (auto simp: analyzeFoodImage_def analyzeFoodImage_try_def
           split: option.splits sum.splits list.splits if_splits)

lemma assembleResult_lookup:
  assumes "assembleResult e data = (r, lookups)"
    and "q = fst (selectNames (allAnnotations data))"
  shows "(isFoodItem r \<longleftrightarrow> lookups \<noteq> [])
       \<and> (lookups \<noteq> [] \<longleftrightarrow> q \<noteq> ''Unknown Food'')
       \<and> lookups = (if q \<noteq> ''Unknown Food'' then [q] else [])
       \<and> (nutritionalData r \<noteq> None \<longleftrightarrow> lookups = [q] \<and> (\<exists>d. fetchNutritionalData e q = Inr d))
       \<and> (\<forall>d. nutritionalData r = Some d \<longrightarrow> fetchNutritionalData e q = Inr d)"
  using assms
  by (auto simp: assembleResult_def Let_def split: if_splits sum.splits)

text \<open>
  Claim C2. For every result the orchestrator returns, \<open>isFoodItem\<close> is true exactly
  when a nutrition lookup was attempted, which is exactly when the selected query is
  not \<open>Unknown Food\<close>, whatever the lookup returned; and \<open>nutritionalData\<close> is
  present exactly when that lookup was attempted and succeeded, and is then its result.
\<close>

theorem isFoodItem_iff_lookup_attempted:
  assumes "analyzeFoodImage e imageUri = Inr (r, lookups)"
  shows "\<exists>key img data rest.
           GOOGLE_API_KEY e = Some key \<and> readAsStringAsync e imageUri = Inr img
           \<and> visionPost e key img = Inr (data # rest)
           \<and> (let q = fst (selectNames (allAnnotations data)) in
                (isFoodItem r \<longleftrightarrow> lookups \<noteq> [])
                \<and> (lookups \<noteq> [] \<longleftrightarrow> q \<noteq> ''Unknown Food'')
                \<and> lookups = (if q \<noteq> ''Unknown Food'' then [q] else [])
                \<and> (nutritionalData r \<noteq> None
                      \<longleftrightarrow> lookups = [q] \<and> (\<exists>d. fetchNutritionalData e q = Inr d))
                \<and> (\<forall>d. nutritionalData r = Some d \<longrightarrow> fetchNutritionalData e q = Inr d))"
proof -
  from assms obtain key img data rest where
    k: "GOOGLE_API_KEY e = Some key" "readAsStringAsync e imageUri = Inr img"
       "visionPost e key img = Inr (data # rest)" and
    a: "(r, lookups) = assembleResult e data"
    using analyzeFoodImage_Inr by blast
  from a have "assembleResult e data = (r, lookups)" by simp
  from assembleResult_lookup [OF this refl] k show ?thesis
    unfolding Let_def by blast
qed

lemma pizza_analysis:
  "analyzeFoodImage (sampleEnv (Inr [pizzaData])) ''file:///meal.jpg''
   = Inr (pizzaResult, [''Pizza''])"
  by code_simp

theorem isFoodItem_iff_lookup_attempted_witness:
  "analyzeFoodImage (sampleEnv (Inr [pizzaData])) ''file:///meal.jpg'' = Inr (pizzaResult, [''Pizza''])
   \<and> (\<exists>key img data rest.
           GOOGLE_API_KEY (sampleEnv (Inr [pizzaData])) = Some key
           \<and> readAsStringAsync (sampleEnv (Inr [pizzaData])) ''file:///meal.jpg'' = Inr img
           \<and> visionPost (sampleEnv (Inr [pizzaData])) key img = Inr (data # rest)
           \<and> (let q = fst (selectNames (allAnnotations data)) in
                (isFoodItem pizzaResult \<longleftrightarrow> [''Pizza''] \<noteq> [])
                \<and> ([''Pizza''] \<noteq> [] \<longleftrightarrow> q \<noteq> ''Unknown Food'')
                \<and> [''Pizza''] = (if q \<noteq> ''Unknown Food'' then [q] else [])
                \<and> (nutritionalData pizzaResult \<noteq> None
                      \<longleftrightarrow> [''Pizza''] = [q]
                          \<and> (\<exists>d. fetchNutritionalData (sampleEnv (Inr [pizzaData])) q = Inr d))
                \<and> (\<forall>d. nutritionalData pizzaResult = Some d
                        \<longrightarrow> fetchNutritionalData (sampleEnv (Inr [pizzaData])) q = Inr d)))"
  by (rule conjI [OF pizza_analysis isFoodItem_iff_lookup_attempted [OF pizza_analysis]])

text \<open>
  Claim C4. With the key configured and the image read, a failed classifier call (a
  rejected request, or a response without a first entry) makes the orchestrator fail
  with the rethrown error: the caller gets an error and no result. When the classifier
  call succeeds and the nutrition lookup that follows fails, the orchestrator still
  returns the assembled result, with \<open>nutritionalData\<close> undefined and
  \<open>isFoodItem\<close> true.
\<close>

theorem classifier_failure_terminal_lookup_failure_absorbed:
  assumes "GOOGLE_API_KEY e = Some key" and "key \<noteq> []"
    and "readAsStringAsync e imageUri = Inr img"
  shows "(\<forall>err. visionPost e key img = Inl err
            \<longrightarrow> analyzeFoodImage e imageUri = Inl (rethrow err))
       \<and> (visionPost e key img = Inr []
            \<longrightarrow> analyzeFoodImage e imageUri = Inl (rethrow (Error (typeErrorMessage e))))
       \<and> (\<forall>data rest ferr.
             visionPost e key img = Inr (data # rest)
             \<and> fst (selectNames (allAnnotations data)) \<noteq> ''Unknown Food''
             \<and> fetchNutritionalData e (fst (selectNames (allAnnotations data))) = Inl ferr
            \<longrightarrow> analyzeFoodImage e imageUri =
                  Inr (\<lparr>name = snd (selectNames (allAnnotations data)),
                        r_description = describeAnnotations (percent2 e) (allAnnotations data),
                        nutritionalData = None, isFoodItem = True\<rparr>,
                       [fst (selectNames (allAnnotations data))]))"
  using assms
  by (simp add: analyzeFoodImage_def analyzeFoodImage_try_def assembleResult_def Let_def)

lemma sample_key: "GOOGLE_API_KEY (sampleEnv v) = Some ''google-key''"
  by (simp add: sampleEnv_def)

lemma sample_key_nonempty: "''google-key'' \<noteq> []"
  by simp

lemma sample_read: "readAsStringAsync (sampleEnv v) uri = Inr ''aW1hZ2U=''"
  by (simp add: sampleEnv_def)

lemma sample_vision: "visionPost (sampleEnv v) key img = v"
  by (simp add: sampleEnv_def)

theorem classifier_failure_terminal_lookup_failure_absorbed_witness:
  "analyzeFoodImage (sampleEnv (Inl networkError)) ''file:///meal.jpg''
     = Inl (Error ''Failed to analyze food image. Please try again. Error: Network Error'')
   \<and> analyzeFoodImage (sampleEnv (Inr [])) ''file:///meal.jpg''
     = Inl (Error ''Failed to analyze food image. Please try again. Error: undefined is not an object'')
   \<and> fetchNutritionalData (sampleEnv (Inr [carData])) ''car''
     = Inl (Error ''Failed to fetch nutritional data for car'')
   \<and> analyzeFoodImage (sampleEnv (Inr [carData])) ''file:///meal.jpg''
     = Inr (\<lparr>name = ''car'', r_description = ''car (97.00%) [label]'', nutritionalData = None,
             isFoodItem = True\<rparr>, [''car''])"
proof -
  note T = classifier_failure_terminal_lookup_failure_absorbed
             [OF sample_key sample_key_nonempty sample_read]
  have a: "analyzeFoodImage (sampleEnv (Inl networkError)) ''file:///meal.jpg''
           = Inl (rethrow networkError)"
    by (rule T [THEN conjunct1, rule_format, OF sample_vision])
  have a': "rethrow networkError
            = Error ''Failed to analyze food image. Please try again. Error: Network Error''"
    by code_simp
  have b: "analyzeFoodImage (sampleEnv (Inr [])) ''file:///meal.jpg''
           = Inl (rethrow (Error (typeErrorMessage (sampleEnv (Inr [])))))"
    by (rule T [THEN conjunct2, THEN conjunct1, rule_format, OF sample_vision])
  have b': "rethrow (Error (typeErrorMessage (sampleEnv (Inr []))))
            = Error ''Failed to analyze food image. Please try again. Error: undefined is not an object''"
    by code_simp
  have q: "fst (selectNames (allAnnotations carData)) = ''car''"
    by code_simp
  have n: "snd (selectNames (allAnnotations carData)) = ''car''"
    by code_simp
  have d: "describeAnnotations (percent2 (sampleEnv (Inr [carData]))) (allAnnotations carData)
           = ''car (97.00%) [label]''"
    by code_simp
  have f: "fetchNutritionalData (sampleEnv (Inr [carData])) ''car''
           = Inl (Error ''Failed to fetch nutritional data for car'')"
    by code_simp
  have q': "fst (selectNames (allAnnotations carData)) \<noteq> ''Unknown Food''"
    unfolding q by simp
  have f': "fetchNutritionalData (sampleEnv (Inr [carData]))
              (fst (selectNames (allAnnotations carData)))
            = Inl (Error ''Failed to fetch nutritional data for car'')"
    unfolding q by (rule f)
  have c: "analyzeFoodImage (sampleEnv (Inr [carData])) ''file:///meal.jpg'' =
             Inr (\<lparr>name = snd (selectNames (allAnnotations carData)),
                   r_description =
                     describeAnnotations (percent2 (sampleEnv (Inr [carData])))
                       (allAnnotations carData),
                   nutritionalData = None, isFoodItem = True\<rparr>,
                  [fst (selectNames (allAnnotations carData))])"
    by (rule T [THEN conjunct2, THEN conjunct2, rule_format,
                OF conjI [OF sample_vision conjI [OF q' f']]])
  show ?thesis
    using a b c f unfolding a' b' q n d by (intro conjI)
qed

section \<open>Description and lookup\<close>




text \<open>
  Claim C9, amended. With the key configured, the lookup sends one search request,
  with the page size 5, and depends on the answer to that request only. It extracts
  the nutrients of the first match returned, whatever follows it. When no match is
  returned it fails and returns no data: the error \<open>No matching food found\<close>
  raised in the \<open>try\<close> block is caught by the function's own \<open>catch\<close>, and the
  caller receives the error \<open>Failed to fetch nutritional data\<close>. That is the error
  of every failed lookup: whatever the \<open>try\<close> block throws (a missing key, a
  rejected request with or without a response status, no match), the error the caller
  receives is that one and no other.
\<close>

theorem lookup_takes_first_match_or_fails:
  "(\<forall>key. USDA_API_KEY e = Some key \<and> key \<noteq> []
      \<longrightarrow> pageSize (searchRequest key foodName) = 5
          \<and> fetchNutritionalData e foodName =
              fetchNutritionalData
                (e\<lparr>usdaGet := (\<lambda>r. if r = searchRequest key foodName then usdaGet e r
                                   else Inl (Error []))\<rparr>) foodName
          \<and> (\<forall>food rest. usdaGet e (searchRequest key foodName) = Inr (food # rest)
               \<longrightarrow> fetchNutritionalData e foodName
                     = Inr (extractNutritionalData (foodNutrients food)))
          \<and> (usdaGet e (searchRequest key foodName) = Inr []
               \<longrightarrow> fetchNutritionalData_try e foodName
                     = Inl (Error (''No matching food found for '' @ foodName))
                   \<and> fetchNutritionalData e foodName
                     = Inl (Error (''Failed to fetch nutritional data for '' @ foodName))))
   \<and> (\<forall>err. fetchNutritionalData_try e foodName = Inl err
          \<longrightarrow> fetchNutritionalData e foodName
                = Inl (Error (''Failed to fetch nutritional data for '' @ foodName)))
   \<and> (\<forall>err. fetchNutritionalData e foodName = Inl err
          \<longrightarrow> err = Error (''Failed to fetch nutritional data for '' @ foodName))"
proof -
  have a: "pageSize (searchRequest key foodName) = 5
          \<and> fetchNutritionalData e foodName =
              fetchNutritionalData
                (e\<lparr>usdaGet := (\<lambda>r. if r = searchRequest key foodName then usdaGet e r
                                   else Inl (Error []))\<rparr>) foodName
          \<and> (\<forall>food rest. usdaGet e (searchRequest key foodName) = Inr (food # rest)
               \<longrightarrow> fetchNutritionalData e foodName
                     = Inr (extractNutritionalData (foodNutrients food)))
          \<and> (usdaGet e (searchRequest key foodName) = Inr []
               \<longrightarrow> fetchNutritionalData_try e foodName
                     = Inl (Error (''No matching food found for '' @ foodName))
                   \<and> fetchNutritionalData e foodName
                     = Inl (Error (''Failed to fetch nutritional data for '' @ foodName)))"
    if "USDA_API_KEY e = Some key \<and> key \<noteq> []" for key
    using that
    by (simp add: searchRequest_def fetchNutritionalData_def fetchNutritionalData_try_def)
  have b: "fetchNutritionalData e foodName
             = Inl (Error (''Failed to fetch nutritional data for '' @ foodName))"
    if "fetchNutritionalData_try e foodName = Inl err" for err
    using that by (simp add: fetchNutritionalData_def)
  have c: "err = Error (''Failed to fetch nutritional data for '' @ foodName)"
    if "fetchNutritionalData e foodName = Inl err" for err
    using that by (simp add: fetchNutritionalData_def split: sum.splits)
  from a b c show ?thesis by blast
qed

lemma sample_usda_key: "USDA_API_KEY (sampleEnv v) = Some ''usda-key''"
  by (simp add: sampleEnv_def)

lemma sample_usda_key_nonempty: "''usda-key'' \<noteq> []"
  by simp

theorem lookup_takes_first_match_or_fails_witness:
  "usdaGet (sampleEnv (Inr [pizzaData])) (searchRequest ''usda-key'' ''Pizza'')
     = Inr (pizzaFood # [saladFood])
   \<and> fetchNutritionalData (sampleEnv (Inr [pizzaData])) ''Pizza''
     = Inr \<lparr>calories = 266, protein = 11, carbs = 33, fat = 10, fiber = None, sugar = None,
            sodium = Some 598\<rparr>
   \<and> usdaGet (sampleEnv (Inr [carData])) (searchRequest ''usda-key'' ''car'') = Inr []
   \<and> fetchNutritionalData_try (sampleEnv (Inr [carData])) ''car''
     = Inl (Error ''No matching food found for car'')
   \<and> fetchNutritionalData (sampleEnv (Inr [carData])) ''car''
     = Inl (Error ''Failed to fetch nutritional data for car'')
   \<and> fetchNutritionalData_try
        ((sampleEnv (Inr [carData]))\<lparr>usdaGet := (\<lambda>r. Inl serverError)\<rparr>) ''car''
     = Inl serverError
   \<and> fetchNutritionalData
        ((sampleEnv (Inr [carData]))\<lparr>usdaGet := (\<lambda>r. Inl serverError)\<rparr>) ''car''
     = Inl (Error ''Failed to fetch nutritional data for car'')
   \<and> fetchNutritionalData_try
        ((sampleEnv (Inr [carData]))\<lparr>USDA_API_KEY := None\<rparr>) ''car''
     = Inl (Error ''USDA API key is not set. Please configure it in your .env and app.json.'')
   \<and> fetchNutritionalData
        ((sampleEnv (Inr [carData]))\<lparr>USDA_API_KEY := None\<rparr>) ''car''
     = Inl (Error ''Failed to fetch nutritional data for car'')"
proof -
  note T = lookup_takes_first_match_or_fails
             [THEN conjunct1, rule_format,
              OF conjI [OF sample_usda_key sample_usda_key_nonempty]]
  note F = lookup_takes_first_match_or_fails [THEN conjunct2, THEN conjunct1, rule_format]
  have g: "usdaGet (sampleEnv (Inr [pizzaData])) (searchRequest ''usda-key'' ''Pizza'')
           = Inr (pizzaFood # [saladFood])"
    by (simp add: sampleEnv_def searchRequest_def)
  have x: "extractNutritionalData (foodNutrients pizzaFood)
           = \<lparr>calories = 266, protein = 11, carbs = 33, fat = 10, fiber = None, sugar = None,
              sodium = Some 598\<rparr>"
    by code_simp
  have "fetchNutritionalData (sampleEnv (Inr [pizzaData])) ''Pizza''
        = Inr (extractNutritionalData (foodNutrients pizzaFood))"
    by (rule T [THEN conjunct2, THEN conjunct2, THEN conjunct1, rule_format, OF g])
  then have p: "fetchNutritionalData (sampleEnv (Inr [pizzaData])) ''Pizza''
     = Inr \<lparr>calories = 266, protein = 11, carbs = 33, fat = 10, fiber = None, sugar = None,
            sodium = Some 598\<rparr>"
    unfolding x .
  have z: "usdaGet (sampleEnv (Inr [carData])) (searchRequest ''usda-key'' ''car'') = Inr []"
    by (simp add: sampleEnv_def searchRequest_def)
  have "fetchNutritionalData_try (sampleEnv (Inr [carData])) ''car''
          = Inl (Error (''No matching food found for '' @ ''car''))
        \<and> fetchNutritionalData (sampleEnv (Inr [carData])) ''car''
          = Inl (Error (''Failed to fetch nutritional data for '' @ ''car''))"
    by (rule T [THEN conjunct2, THEN conjunct2, THEN conjunct2, rule_format, OF z])
  then have c: "fetchNutritionalData_try (sampleEnv (Inr [carData])) ''car''
          = Inl (Error ''No matching food found for car'')
        \<and> fetchNutritionalData (sampleEnv (Inr [carData])) ''car''
          = Inl (Error ''Failed to fetch nutritional data for car'')"
    by simp
  have s1: "fetchNutritionalData_try
              ((sampleEnv (Inr [carData]))\<lparr>usdaGet := (\<lambda>r. Inl serverError)\<rparr>) ''car''
            = Inl serverError"
    by code_simp
  have "fetchNutritionalData
          ((sampleEnv (Inr [carData]))\<lparr>usdaGet := (\<lambda>r. Inl serverError)\<rparr>) ''car''
        = Inl (Error (''Failed to fetch nutritional data for '' @ ''car''))"
    by (rule F [OF s1])
  then have s2: "fetchNutritionalData
          ((sampleEnv (Inr [carData]))\<lparr>usdaGet := (\<lambda>r. Inl serverError)\<rparr>) ''car''
        = Inl (Error ''Failed to fetch nutritional data for car'')"
    by simp
  have k1: "fetchNutritionalData_try
              ((sampleEnv (Inr [carData]))\<lparr>USDA_API_KEY := None\<rparr>) ''car''
            = Inl (Error ''USDA API key is not set. Please configure it in your .env and app.json.'')"
    by code_simp
  have "fetchNutritionalData
          ((sampleEnv (Inr [carData]))\<lparr>USDA_API_KEY := None\<rparr>) ''car''
        = Inl (Error (''Failed to fetch nutritional data for '' @ ''car''))"
    by (rule F [OF k1])
  then have k2: "fetchNutritionalData
          ((sampleEnv (Inr [carData]))\<lparr>USDA_API_KEY := None\<rparr>) ''car''
        = Inl (Error ''Failed to fetch nutritional data for car'')"
    by simp
  show ?thesis
    by (intro conjI g p z c [THEN conjunct1] c [THEN conjunct2] s1 s2 k1 k2)
qed

text \<open>
  Claim C9, as the claim has it: with zero matches the lookup fails with a not-found
  error. It fails with the error of every failed lookup instead, the same one a
  rejected request gives.
\<close>

theorem not_found_error_replaced_counterexample:
  "usdaGet (sampleEnv (Inr [carData])) (searchRequest ''usda-key'' ''car'') = Inr []
   \<and> fetchNutritionalData (sampleEnv (Inr [carData])) ''car''
       \<noteq> Inl (Error ''No matching food found for car'')
   \<and> fetchNutritionalData (sampleEnv (Inr [carData])) ''car''
       = Inl (Error ''Failed to fetch nutritional data for car'')
   \<and> fetchNutritionalData
        ((sampleEnv (Inr [carData]))\<lparr>usdaGet := (\<lambda>r. Inl networkError)\<rparr>) ''car''
       = Inl (Error ''Failed to fetch nutritional data for car'')"
  by code_simp

section \<open>Saving\<close>

lemma orZero_Some: "orZero (Some v) = v"
  by (simp add: orZero_def)

text \<open>
  Claim C7. Saving a result with \<open>isFoodItem\<close> true and \<open>nutritionalData\<close>
  present, by a signed-in user with an image and not saved before, passes one row to
  the record store, and in the aggregate total of that row the calories, protein, carbs
  and fat (stored as \<open>fats\<close>) are exactly those of the input
  \<open>nutritionalData\<close>. When the store accepts the row, the result counts as saved.
\<close>

theorem saved_total_equals_nutritional_data:
  assumes "isFoodItem r" and "nutritionalData r = Some nd" and "imageUri \<noteq> []"
  shows "inserted (handleSaveToHistory insertRow (Some u) (Some imageUri) (Some (setFoodData r)) False)
           = [\<lparr>user_id = uid u, image_url = imageUri,
               analysis_data = buildAnalysisData (setFoodData r)\<rparr>]
       \<and> t_calories (total (buildAnalysisData (setFoodData r))) = calories nd
       \<and> t_protein (total (buildAnalysisData (setFoodData r))) = protein nd
       \<and> t_carbs (total (buildAnalysisData (setFoodData r))) = carbs nd
       \<and> t_fats (total (buildAnalysisData (setFoodData r))) = fat nd
       \<and> (insertRow \<lparr>user_id = uid u, image_url = imageUri,
                      analysis_data = buildAnalysisData (setFoodData r)\<rparr> = InsertOk
            \<longrightarrow> isSavedAfter (handleSaveToHistory insertRow (Some u) (Some imageUri)
                                (Some (setFoodData r)) False))"
proof -
  have t: "t_calories (total (buildAnalysisData (setFoodData r))) = calories nd
       \<and> t_protein (total (buildAnalysisData (setFoodData r))) = protein nd
       \<and> t_carbs (total (buildAnalysisData (setFoodData r))) = carbs nd
       \<and> t_fats (total (buildAnalysisData (setFoodData r))) = fat nd"
    using assms(2) by (simp add: buildAnalysisData_def setFoodData_def Let_def orZero_Some)
  have g: "fs_isFoodItem (setFoodData r) = Some True"
          "fs_nutritionalData (setFoodData r) \<noteq> None"
    using assms(1,2) by (simp_all add: setFoodData_def)
  have i: "inserted (handleSaveToHistory insertRow (Some u) (Some imageUri) (Some (setFoodData r)) False)
           = [\<lparr>user_id = uid u, image_url = imageUri,
               analysis_data = buildAnalysisData (setFoodData r)\<rparr>]"
    using g assms(3) by (simp add: handleSaveToHistory_def Let_def split: insert_outcome.splits)
  have s: "isSavedAfter (handleSaveToHistory insertRow (Some u) (Some imageUri)
                                (Some (setFoodData r)) False)"
    if "insertRow \<lparr>user_id = uid u, image_url = imageUri,
                      analysis_data = buildAnalysisData (setFoodData r)\<rparr> = InsertOk"
    using g assms(3) that by (simp add: handleSaveToHistory_def Let_def)
  from t i s show ?thesis by blast
qed

lemma pizza_isFoodItem: "isFoodItem pizzaResult"
  by (simp add: pizzaResult_def)

lemma pizza_nutritionalData:
  "nutritionalData pizzaResult =
     Some \<lparr>calories = 266, protein = 11, carbs = 33, fat = 10, fiber = None, sugar = None,
           sodium = Some 598\<rparr>"
  by (simp add: pizzaResult_def)

lemma sample_uri_nonempty: "''file:///meal.jpg'' \<noteq> []"
  by simp

theorem saved_total_equals_nutritional_data_witness:
  "isFoodItem pizzaResult
   \<and> nutritionalData pizzaResult \<noteq> None
   \<and> inserted (handleSaveToHistory (\<lambda>row. InsertOk) (Some sampleUser) (Some ''file:///meal.jpg'')
                 (Some (setFoodData pizzaResult)) False)
       = [\<lparr>user_id = ''user-1'', image_url = ''file:///meal.jpg'',
           analysis_data = buildAnalysisData (setFoodData pizzaResult)\<rparr>]
   \<and> total (buildAnalysisData (setFoodData pizzaResult))
       = \<lparr>t_calories = 266, t_protein = 11, t_carbs = 33, t_fats = 10, t_fiber = 0,
          t_sugar = 0, t_sodium = 598\<rparr>
   \<and> isSavedAfter (handleSaveToHistory (\<lambda>row. InsertOk) (Some sampleUser)
                     (Some ''file:///meal.jpg'') (Some (setFoodData pizzaResult)) False)"
proof -
  note T = saved_total_equals_nutritional_data
             [OF pizza_isFoodItem pizza_nutritionalData sample_uri_nonempty,
              of "\<lambda>row. InsertOk" sampleUser]
  have n: "nutritionalData pizzaResult \<noteq> None"
    by (simp add: pizza_nutritionalData)
  have u: "uid sampleUser = ''user-1''"
    by (simp add: sampleUser_def)
  have i: "inserted (handleSaveToHistory (\<lambda>row. InsertOk) (Some sampleUser) (Some ''file:///meal.jpg'')
                 (Some (setFoodData pizzaResult)) False)
       = [\<lparr>user_id = ''user-1'', image_url = ''file:///meal.jpg'',
           analysis_data = buildAnalysisData (setFoodData pizzaResult)\<rparr>]"
    using T [THEN conjunct1] unfolding u .
  have o: "t_fiber (total (buildAnalysisData (setFoodData pizzaResult))) = 0
           \<and> t_sugar (total (buildAnalysisData (setFoodData pizzaResult))) = 0
           \<and> t_sodium (total (buildAnalysisData (setFoodData pizzaResult))) = 598"
    by code_simp
  have r: "t_calories (total (buildAnalysisData (setFoodData pizzaResult))) = 266
       \<and> t_protein (total (buildAnalysisData (setFoodData pizzaResult))) = 11
       \<and> t_carbs (total (buildAnalysisData (setFoodData pizzaResult))) = 33
       \<and> t_fats (total (buildAnalysisData (setFoodData pizzaResult))) = 10"
    using T by simp
  have t: "total (buildAnalysisData (setFoodData pizzaResult))
       = \<lparr>t_calories = 266, t_protein = 11, t_carbs = 33, t_fats = 10, t_fiber = 0,
          t_sugar = 0, t_sodium = 598\<rparr>"
    using o r by (cases "total (buildAnalysisData (setFoodData pizzaResult))") simp
  have s: "isSavedAfter (handleSaveToHistory (\<lambda>row. InsertOk) (Some sampleUser)
                     (Some ''file:///meal.jpg'') (Some (setFoodData pizzaResult)) False)"
    using T by simp
  from pizza_isFoodItem n i t s show ?thesis by (intro conjI)
qed

end
